theory Spec2Isabelle
  imports Main
begin

section \<open>The layer graph under construction\<close>

text \<open>
  The source (\<^verbatim>\<open>xception.py\<close>) builds a Keras graph: every layer call such as
  \<^verbatim>\<open>Conv2D(...)(x)\<close> creates one new layer object and returns one new symbolic
  tensor. The embedding makes this hidden state explicit. A graph is the list of the
  nodes created so far, in creation order; a tensor is the handle of the node that
  produced it, namely the position of that node in the list. A node records the layer
  with its constructor arguments and the handles of the tensors it was called on.
\<close>

type_synonym tensor = nat

datatype layer =
    InputLayer "int list"
  | Activation string
  | Add
  | BatchNormalization
  | Conv2D int "int \<times> int" "int \<times> int" string bool
  | Dense int
  | GlobalAveragePooling2D
  | MaxPool2D "int \<times> int" "int \<times> int" string
  | SeparableConv2D int "int \<times> int" "int \<times> int" string bool

text \<open>
  The arguments of \<open>Conv2D\<close> and \<open>SeparableConv2D\<close> are, in this order,
  \<^verbatim>\<open>filters\<close>, \<^verbatim>\<open>kernel_size\<close>, \<^verbatim>\<open>strides\<close>, \<^verbatim>\<open>padding\<close> and \<^verbatim>\<open>use_bias\<close>;
  those of \<open>MaxPool2D\<close> are \<^verbatim>\<open>pool_size\<close>, \<^verbatim>\<open>strides\<close> and \<^verbatim>\<open>padding\<close>;
  \<open>Dense\<close> carries \<^verbatim>\<open>units\<close>, \<open>Activation\<close> the name of the function and
  \<open>InputLayer\<close> the declared shape without the batch dimension.
\<close>

record node =
  layer :: layer
  inbound :: "tensor list"

type_synonym graph = "node list"

datatype error = ValueError string

record keras_model =
  inputs :: tensor
  outputs :: tensor
  name :: string

subsection \<open>Construction steps: state passing with exceptions\<close>

text \<open>
  A construction step takes the graph built so far and returns either the raised error
  or its result, together with the graph as it is at that moment. A raise keeps the
  nodes created before it, which is what Python does: objects created before an
  exception are not undone.
\<close>

type_synonym 'a build = "graph \<Rightarrow> (error + 'a) \<times> graph"

definition build_return :: "'a \<Rightarrow> 'a build" where
  "build_return x g = (Inr x, g)"

definition build_raise :: "error \<Rightarrow> 'a build" where
  "build_raise e g = (Inl e, g)"

definition build_bind :: "'a build \<Rightarrow> ('a \<Rightarrow> 'b build) \<Rightarrow> 'b build" where
  "build_bind m f g =
     (case m g of
        (Inl e, g') \<Rightarrow> (Inl e, g')
      | (Inr x, g') \<Rightarrow> f x g')"

text \<open>
  A \<^verbatim>\<open>for v in vs: acc = body(v, acc)\<close> loop: the body is run for each element in
  order, threading the loop-carried variable.
\<close>

fun for_each :: "'b list \<Rightarrow> ('b \<Rightarrow> 'a \<Rightarrow> 'a build) \<Rightarrow> 'a \<Rightarrow> 'a build" where
  "for_each [] body acc = build_return acc"
| "for_each (v # vs) body acc = build_bind (body v acc) (for_each vs body)"

definition py_range :: "nat \<Rightarrow> nat list" where
  "py_range n = [0..<n]"

text \<open>A keyword argument with a default: \<open>None\<close> stands for an omitted argument.\<close>

definition default_arg :: "'a \<Rightarrow> 'a option \<Rightarrow> 'a" where
  "default_arg d a = (case a of None \<Rightarrow> d | Some v \<Rightarrow> v)"

text \<open>
  Modelled from the spec: the layer classes and the \<^verbatim>\<open>Input\<close> and \<^verbatim>\<open>Model\<close>
  constructors are imported from \<^verbatim>\<open>tensorflow.keras\<close>, the tensor-execution engine of
  the specification, which is no part of the repository. By the specification's
  sections 3 and 6 a primitive consumes tensors and produces one new tensor, and a model
  is an input tensor, an output tensor and a name. So calling a layer on tensors,
  \<^verbatim>\<open>L(...)(xs)\<close>, appends one node and returns its handle. The engine's own check
  of the arguments of a convolution layer is modelled separately, as
  \<open>checked_call_layer\<close> below.
\<close>

definition call_layer :: "layer \<Rightarrow> tensor list \<Rightarrow> tensor build" where
  "call_layer l xs g = (Inr (length g), g @ [\<lparr>layer = l, inbound = xs\<rparr>])"

definition Input :: "int list \<Rightarrow> tensor build" where
  "Input shape = call_layer (InputLayer shape) []"

definition Model :: "tensor \<Rightarrow> tensor \<Rightarrow> string \<Rightarrow> keras_model build" where
  "Model i out nm = build_return \<lparr>inputs = i, outputs = out, name = nm\<rparr>"

section \<open>The source functions\<close>

definition convolutional_unit ::
  "tensor \<Rightarrow> int \<Rightarrow> int \<times> int \<Rightarrow> (int \<times> int) option \<Rightarrow> bool option \<Rightarrow> bool option \<Rightarrow>
   string option \<Rightarrow> tensor build" where
  "convolutional_unit conv_inputs num_filters kernel_size strides_arg pre_arg post_arg conv_layer_arg =
     (let strides = default_arg (1, 1) strides_arg;
          pre_activation = default_arg False pre_arg;
          post_activation = default_arg True post_arg;
          conv_layer = default_arg ''Conv2D'' conv_layer_arg
      in
        if conv_layer \<notin> set [''Conv2D'', ''SeparableConv2D'']
        then build_raise (ValueError
               (''conv_layer must be either Conv2D or SeparableConv2D. Found '' @ conv_layer))
        else
          build_bind
            (if pre_activation then call_layer (Activation ''relu'') [conv_inputs]
             else build_return conv_inputs)
            (\<lambda>conv_inputs.
          build_bind
            (if conv_layer = ''Conv2D''
             then call_layer (Conv2D num_filters kernel_size strides ''same'' False) [conv_inputs]
             else if conv_layer = ''SeparableConv2D''
             then call_layer (SeparableConv2D num_filters kernel_size strides ''same'' False)
                    [conv_inputs]
             else build_return conv_inputs)
            (\<lambda>conv_outputs.
          build_bind (call_layer BatchNormalization [conv_outputs])
            (\<lambda>conv_outputs.
          if post_activation then call_layer (Activation ''relu'') [conv_outputs]
          else build_return conv_outputs))))"

definition separable_convolutional_unit ::
  "tensor \<Rightarrow> int \<Rightarrow> bool option \<Rightarrow> bool option \<Rightarrow> tensor build" where
  "separable_convolutional_unit sep_conv_inputs num_filters pre_arg post_arg =
     (let pre_activation = default_arg True pre_arg;
          post_activation = default_arg False post_arg
      in convolutional_unit sep_conv_inputs num_filters (3, 3) None
           (Some pre_activation) (Some post_activation) (Some ''SeparableConv2D''))"

definition entry_flow :: "tensor \<Rightarrow> tensor build" where
  "entry_flow entry_inputs =
     build_bind (convolutional_unit entry_inputs 32 (3, 3) (Some (2, 2)) None None None)
       (\<lambda>entry_outputs.
     build_bind (convolutional_unit entry_outputs 64 (3, 3) None None None None)
       (\<lambda>entry_outputs.
     for_each [128, 256, 728]
       (\<lambda>num_filters entry_outputs.
          build_bind
            (convolutional_unit entry_outputs num_filters (1, 1) (Some (2, 2)) None (Some False) None)
            (\<lambda>res.
          build_bind
            (for_each (py_range 2)
               (\<lambda>_ entry_outputs. separable_convolutional_unit entry_outputs num_filters None None)
               entry_outputs)
            (\<lambda>entry_outputs.
          build_bind (call_layer (MaxPool2D (3, 3) (2, 2) ''same'') [entry_outputs])
            (\<lambda>entry_outputs.
          call_layer Add [res, entry_outputs]))))
       entry_outputs))"

definition middle_flow :: "tensor \<Rightarrow> tensor build" where
  "middle_flow middle_inputs =
     for_each (py_range 8)
       (\<lambda>_ middle_outputs.
          build_bind
            (for_each (py_range 3)
               (\<lambda>_ middle_outputs. separable_convolutional_unit middle_outputs 728 None None)
               middle_outputs)
            (\<lambda>sep_outputs. call_layer Add [middle_outputs, sep_outputs]))
       middle_inputs"

definition exit_flow :: "tensor \<Rightarrow> tensor build" where
  "exit_flow exit_inputs =
     build_bind (convolutional_unit exit_inputs 1024 (1, 1) (Some (2, 2)) None (Some False) None)
       (\<lambda>res.
     build_bind
       (for_each [728, 1024]
          (\<lambda>num_filters exit_outputs.
             separable_convolutional_unit exit_outputs num_filters None None)
          exit_inputs)
       (\<lambda>exit_outputs.
     build_bind (call_layer (MaxPool2D (3, 3) (2, 2) ''same'') [exit_outputs])
       (\<lambda>exit_outputs.
     build_bind (call_layer Add [res, exit_outputs])
       (\<lambda>exit_outputs.
     build_bind
       (for_each [1536, 2048]
          (\<lambda>num_filters exit_outputs.
             separable_convolutional_unit exit_outputs num_filters (Some False) (Some True))
          exit_outputs)
       (\<lambda>exit_outputs.
     build_bind (call_layer GlobalAveragePooling2D [exit_outputs])
       (\<lambda>exit_outputs.
     build_bind (call_layer (Dense 2048) [exit_outputs])
       (\<lambda>exit_outputs.
     build_bind (call_layer (Activation ''relu'') [exit_outputs])
       (\<lambda>exit_outputs.
     build_bind (call_layer (Dense 1000) [exit_outputs])
       (\<lambda>exit_outputs.
     call_layer (Activation ''softmax'') [exit_outputs])))))))))"

text \<open>
  The statements at module level: the input placeholder, the three flows in sequence
  and the \<^verbatim>\<open>Model\<close> object bound to the variable \<^verbatim>\<open>model\<close>.
\<close>

definition model :: "keras_model build" where
  "model =
     build_bind (Input [299, 299, 3])
       (\<lambda>model_inputs.
     build_bind (entry_flow model_inputs)
       (\<lambda>intermediate_outputs.
     build_bind (middle_flow intermediate_outputs)
       (\<lambda>intermediate_outputs.
     build_bind (exit_flow intermediate_outputs)
       (\<lambda>model_outputs.
     Model model_inputs model_outputs ''Xception''))))"

section \<open>The engine's check of the convolution arguments\<close>

text \<open>
  Modelled from the spec: the check that the constructors of the convolution layers
  make on their arguments. \<^verbatim>\<open>Conv2D\<close> and \<^verbatim>\<open>SeparableConv2D\<close> are classes of the engine
  (\<^verbatim>\<open>tensorflow.keras.layers\<close>), so this check is no part of the repository. The
  specification states it in sections 4.1 and 7: the filter count is at least one, the
  kernel size and the strides are pairs of positive numbers, and any other value is an
  invalid configuration, raised synchronously at the call that receives it. The error
  is a \<open>ValueError\<close>, as the unit's own; its message here is the name of the offending
  parameter, the engine's wording is not modelled. The arguments are examined in the
  order filter count, kernel size, strides.
\<close>

definition positive_pair :: "int \<times> int \<Rightarrow> bool" where
  "positive_pair p = (1 \<le> fst p \<and> 1 \<le> snd p)"

definition conv_arguments_error :: "int \<Rightarrow> int \<times> int \<Rightarrow> int \<times> int \<Rightarrow> error option" where
  "conv_arguments_error filters kernel_size strides =
     (if filters < 1 then Some (ValueError ''filters'')
      else if \<not> positive_pair kernel_size then Some (ValueError ''kernel_size'')
      else if \<not> positive_pair strides then Some (ValueError ''strides'')
      else None)"

fun layer_arguments_error :: "layer \<Rightarrow> error option" where
  "layer_arguments_error (Conv2D filters kernel_size strides padding use_bias) =
     conv_arguments_error filters kernel_size strides"
| "layer_arguments_error (SeparableConv2D filters kernel_size strides padding use_bias) =
     conv_arguments_error filters kernel_size strides"
| "layer_arguments_error _ = None"

definition checked_call_layer :: "layer \<Rightarrow> tensor list \<Rightarrow> tensor build" where
  "checked_call_layer l xs =
     (case layer_arguments_error l of
        Some e \<Rightarrow> build_raise e
      | None \<Rightarrow> call_layer l xs)"

text \<open>
  \<open>convolutional_unit_over\<close> is the source function \<^verbatim>\<open>convolutional_unit\<close> once more, with
  the primitive that performs a layer call as a parameter: over \<open>call_layer\<close> it is
  \<open>convolutional_unit\<close> itself, over \<open>checked_call_layer\<close> it is the unit on an engine
  that checks the arguments of its convolutions.
\<close>

definition convolutional_unit_over ::
  "(layer \<Rightarrow> tensor list \<Rightarrow> tensor build) \<Rightarrow>
   tensor \<Rightarrow> int \<Rightarrow> int \<times> int \<Rightarrow> (int \<times> int) option \<Rightarrow> bool option \<Rightarrow> bool option \<Rightarrow>
   string option \<Rightarrow> tensor build" where
  "convolutional_unit_over call conv_inputs num_filters kernel_size strides_arg pre_arg post_arg
     conv_layer_arg =
     (let strides = default_arg (1, 1) strides_arg;
          pre_activation = default_arg False pre_arg;
          post_activation = default_arg True post_arg;
          conv_layer = default_arg ''Conv2D'' conv_layer_arg
      in
        if conv_layer \<notin> set [''Conv2D'', ''SeparableConv2D'']
        then build_raise (ValueError
               (''conv_layer must be either Conv2D or SeparableConv2D. Found '' @ conv_layer))
        else
          build_bind
            (if pre_activation then call (Activation ''relu'') [conv_inputs]
             else build_return conv_inputs)
            (\<lambda>conv_inputs.
          build_bind
            (if conv_layer = ''Conv2D''
             then call (Conv2D num_filters kernel_size strides ''same'' False) [conv_inputs]
             else if conv_layer = ''SeparableConv2D''
             then call (SeparableConv2D num_filters kernel_size strides ''same'' False)
                    [conv_inputs]
             else build_return conv_inputs)
            (\<lambda>conv_outputs.
          build_bind (call BatchNormalization [conv_outputs])
            (\<lambda>conv_outputs.
          if post_activation then call (Activation ''relu'') [conv_outputs]
          else build_return conv_outputs))))"

section \<open>Observations on a construction\<close>

text \<open>
  The nodes a step creates when it is run in the state \<open>g\<close>, and the number of created
  nodes whose layer satisfies a predicate.
\<close>

definition created :: "'a build \<Rightarrow> graph \<Rightarrow> node list" where
  "created m g = drop (length g) (snd (m g))"

definition count_layers :: "(layer \<Rightarrow> bool) \<Rightarrow> node list \<Rightarrow> nat" where
  "count_layers P ns = length (filter (\<lambda>n. P (layer n)) ns)"

fun is_Add :: "layer \<Rightarrow> bool" where
  "is_Add Add = True"
| "is_Add _ = False"

fun is_Conv2D :: "layer \<Rightarrow> bool" where
  "is_Conv2D (Conv2D _ _ _ _ _) = True"
| "is_Conv2D _ = False"

fun is_SeparableConv2D :: "layer \<Rightarrow> bool" where
  "is_SeparableConv2D (SeparableConv2D _ _ _ _ _) = True"
| "is_SeparableConv2D _ = False"

fun is_BatchNormalization :: "layer \<Rightarrow> bool" where
  "is_BatchNormalization BatchNormalization = True"
| "is_BatchNormalization _ = False"

text \<open>
  Two builds create distinct instances; their graphs are compared up to the renaming of
  handles. \<open>shift_node k\<close> moves every handle a node refers to by \<open>k\<close> positions.
\<close>

definition shift_node :: "nat \<Rightarrow> node \<Rightarrow> node" where
  "shift_node k n = \<lparr>layer = layer n, inbound = map (\<lambda>t. t + k) (inbound n)\<rparr>"

section \<open>Shapes of the tensors\<close>

text \<open>
  Modelled from the spec: the shape rules of the layer primitives. The primitives belong
  to the tensor-execution engine (\<^verbatim>\<open>tensorflow.keras.layers\<close>), which is not part of the
  repository; the spec gives their contract (sections 3, 4.1, 4.5 and 6, and the
  glossary): a shape is \<open>[batch?, height, width, channels]\<close> with an unbound batch
  dimension; a convolution with "same" padding yields \<open>ceil(dim/stride)\<close> in each
  spatial dimension and \<open>filters\<close> channels; max-pooling downsamples the same way and
  keeps the channels; batch normalization and activation keep the shape; an addition
  needs identical shapes; global average pooling drops the spatial dimensions; a dense
  layer replaces the last dimension by \<open>units\<close>. A dimension is \<open>None\<close> when it is
  unbound, and a rule that does not apply gives no shape.
\<close>

type_synonym dim = "int option"
type_synonym shape = "dim list"

fun same_pad_dim :: "dim \<Rightarrow> int \<Rightarrow> dim" where
  "same_pad_dim None s = None"
| "same_pad_dim (Some h) s = Some (- ((- h) div s))"

fun downsample :: "dim \<Rightarrow> int \<times> int \<Rightarrow> string \<Rightarrow> shape \<Rightarrow> shape option" where
  "downsample channels (sh, sw) padding [b, h, w, c] =
     (if padding = ''same'' \<and> 0 < sh \<and> 0 < sw
      then Some [b, same_pad_dim h sh, same_pad_dim w sw, channels]
      else None)"
| "downsample channels (sh, sw) padding _ = None"

fun pool_shape :: "int \<times> int \<Rightarrow> string \<Rightarrow> shape \<Rightarrow> shape option" where
  "pool_shape strides padding [b, h, w, c] = downsample c strides padding [b, h, w, c]"
| "pool_shape strides padding _ = None"

fun global_pool_shape :: "shape \<Rightarrow> shape option" where
  "global_pool_shape [b, h, w, c] = Some [b, c]"
| "global_pool_shape _ = None"

fun dense_shape :: "int \<Rightarrow> shape \<Rightarrow> shape option" where
  "dense_shape units [] = None"
| "dense_shape units (d # ds) = Some (butlast (d # ds) @ [Some units])"

fun unary :: "(shape \<Rightarrow> shape option) \<Rightarrow> shape option list \<Rightarrow> shape option" where
  "unary f [Some s] = f s"
| "unary f _ = None"

fun add_shape :: "shape option list \<Rightarrow> shape option" where
  "add_shape [Some s1, Some s2] = (if s1 = s2 then Some s1 else None)"
| "add_shape _ = None"

fun input_shape :: "int list \<Rightarrow> shape option list \<Rightarrow> shape option" where
  "input_shape shp [] = Some (None # map Some shp)"
| "input_shape shp _ = None"

definition layer_shape :: "layer \<Rightarrow> shape option list \<Rightarrow> shape option" where
  "layer_shape l ins =
     (case l of
        InputLayer shp \<Rightarrow> input_shape shp ins
      | Activation a \<Rightarrow> unary Some ins
      | Add \<Rightarrow> add_shape ins
      | BatchNormalization \<Rightarrow> unary Some ins
      | Conv2D filters kernel_size strides padding use_bias \<Rightarrow>
          unary (downsample (Some filters) strides padding) ins
      | Dense units \<Rightarrow> unary (dense_shape units) ins
      | GlobalAveragePooling2D \<Rightarrow> unary global_pool_shape ins
      | MaxPool2D pool_size strides padding \<Rightarrow> unary (pool_shape strides padding) ins
      | SeparableConv2D filters kernel_size strides padding use_bias \<Rightarrow>
          unary (downsample (Some filters) strides padding) ins)"

text \<open>
  The shapes of all tensors of a graph, computed node by node in creation order; a
  handle that names no earlier node has no shape.
\<close>

definition in_shape :: "shape option list \<Rightarrow> tensor \<Rightarrow> shape option" where
  "in_shape env t = (if t < length env then env ! t else None)"

fun shapes_from :: "shape option list \<Rightarrow> node list \<Rightarrow> shape option list" where
  "shapes_from env [] = env"
| "shapes_from env (n # ns) =
     shapes_from (env @ [layer_shape (layer n) (map (in_shape env) (inbound n))]) ns"

definition shape_of :: "graph \<Rightarrow> tensor \<Rightarrow> shape option" where
  "shape_of g t = in_shape (shapes_from [] g) t"

section \<open>The stages in the words of the specification\<close>

text \<open>
  The specification describes each flow as a fixed sequence of units, where the source
  has iteration. These definitions follow the specification's sections 4.3 to 4.5 step by
  step, every argument written out; the theorems below compare them with the source
  functions.
\<close>

definition EntryResidualBlock :: "int \<Rightarrow> tensor \<Rightarrow> tensor build" where
  "EntryResidualBlock filters main =
     build_bind
       (convolutional_unit main filters (1, 1) (Some (2, 2)) (Some False) (Some False)
          (Some ''Conv2D''))
       (\<lambda>projection.
     build_bind (separable_convolutional_unit main filters (Some True) (Some False))
       (\<lambda>sep1.
     build_bind (separable_convolutional_unit sep1 filters (Some True) (Some False))
       (\<lambda>sep2.
     build_bind (call_layer (MaxPool2D (3, 3) (2, 2) ''same'') [sep2])
       (\<lambda>pooled.
     call_layer Add [projection, pooled]))))"

definition EntryFlowBuilder :: "tensor \<Rightarrow> tensor build" where
  "EntryFlowBuilder input =
     build_bind
       (convolutional_unit input 32 (3, 3) (Some (2, 2)) (Some False) (Some True)
          (Some ''Conv2D''))
       (\<lambda>stem1.
     build_bind
       (convolutional_unit stem1 64 (3, 3) (Some (1, 1)) (Some False) (Some True)
          (Some ''Conv2D''))
       (\<lambda>stem2.
     build_bind (EntryResidualBlock 128 stem2)
       (\<lambda>block1.
     build_bind (EntryResidualBlock 256 block1)
       (\<lambda>block2.
     EntryResidualBlock 728 block2))))"

definition MiddleBlock :: "tensor \<Rightarrow> tensor build" where
  "MiddleBlock residual =
     build_bind (separable_convolutional_unit residual 728 (Some True) (Some False))
       (\<lambda>sep1.
     build_bind (separable_convolutional_unit sep1 728 (Some True) (Some False))
       (\<lambda>sep2.
     build_bind (separable_convolutional_unit sep2 728 (Some True) (Some False))
       (\<lambda>sep3.
     call_layer Add [residual, sep3])))"

definition MiddleFlowBuilder :: "tensor \<Rightarrow> tensor build" where
  "MiddleFlowBuilder input =
     build_bind (MiddleBlock input)
       (\<lambda>b1.
     build_bind (MiddleBlock b1)
       (\<lambda>b2.
     build_bind (MiddleBlock b2)
       (\<lambda>b3.
     build_bind (MiddleBlock b3)
       (\<lambda>b4.
     build_bind (MiddleBlock b4)
       (\<lambda>b5.
     build_bind (MiddleBlock b5)
       (\<lambda>b6.
     build_bind (MiddleBlock b6)
       (\<lambda>b7.
     MiddleBlock b7)))))))"

definition ExitFlowBuilder :: "tensor \<Rightarrow> tensor build" where
  "ExitFlowBuilder input =
     build_bind
       (convolutional_unit input 1024 (1, 1) (Some (2, 2)) (Some False) (Some False)
          (Some ''Conv2D''))
       (\<lambda>residual.
     build_bind (separable_convolutional_unit input 728 (Some True) (Some False))
       (\<lambda>sep1.
     build_bind (separable_convolutional_unit sep1 1024 (Some True) (Some False))
       (\<lambda>sep2.
     build_bind (call_layer (MaxPool2D (3, 3) (2, 2) ''same'') [sep2])
       (\<lambda>pooled.
     build_bind (call_layer Add [residual, pooled])
       (\<lambda>merged.
     build_bind (separable_convolutional_unit merged 1536 (Some False) (Some True))
       (\<lambda>sep3.
     build_bind (separable_convolutional_unit sep3 2048 (Some False) (Some True))
       (\<lambda>sep4.
     build_bind (call_layer GlobalAveragePooling2D [sep4])
       (\<lambda>pooled2.
     build_bind (call_layer (Dense 2048) [pooled2])
       (\<lambda>fc1.
     build_bind (call_layer (Activation ''relu'') [fc1])
       (\<lambda>act1.
     build_bind (call_layer (Dense 1000) [act1])
       (\<lambda>fc2.
     call_layer (Activation ''softmax'') [fc2])))))))))))"

subsection \<open>The created nodes, written out\<close>

text \<open>
  The nodes of one unit that is called on the tensor \<open>x\<close> when the graph holds \<open>n\<close>
  nodes, and the handle it returns; then the nodes of the blocks and flows, composed
  from those of their units.
\<close>

definition conv_layer_of :: "string \<Rightarrow> int \<Rightarrow> int \<times> int \<Rightarrow> int \<times> int \<Rightarrow> layer" where
  "conv_layer_of cl nf ks st =
     (if cl = ''Conv2D'' then Conv2D nf ks st ''same'' False
      else SeparableConv2D nf ks st ''same'' False)"

definition unit_nodes :: "tensor \<Rightarrow> nat \<Rightarrow> layer \<Rightarrow> bool \<Rightarrow> bool \<Rightarrow> node list" where
  "unit_nodes x n conv pre post =
     (if pre then [\<lparr>layer = Activation ''relu'', inbound = [x]\<rparr>] else []) @
     [\<lparr>layer = conv, inbound = [if pre then n else x]\<rparr>,
      \<lparr>layer = BatchNormalization, inbound = [n + (if pre then 1 else 0)]\<rparr>] @
     (if post
      then [\<lparr>layer = Activation ''relu'', inbound = [n + (if pre then 2 else 1)]\<rparr>]
      else [])"

definition unit_out :: "nat \<Rightarrow> bool \<Rightarrow> bool \<Rightarrow> tensor" where
  "unit_out n pre post = n + (if pre then 1 else 0) + 1 + (if post then 1 else 0)"

definition entry_block_nodes :: "int \<Rightarrow> tensor \<Rightarrow> nat \<Rightarrow> node list" where
  "entry_block_nodes f x n =
     unit_nodes x n (Conv2D f (1, 1) (2, 2) ''same'' False) False False @
     unit_nodes x (n + 2) (SeparableConv2D f (3, 3) (1, 1) ''same'' False) True False @
     unit_nodes (n + 4) (n + 5) (SeparableConv2D f (3, 3) (1, 1) ''same'' False) True False @
     [\<lparr>layer = MaxPool2D (3, 3) (2, 2) ''same'', inbound = [n + 7]\<rparr>,
      \<lparr>layer = Add, inbound = [n + 1, n + 8]\<rparr>]"

definition entry_nodes :: "tensor \<Rightarrow> nat \<Rightarrow> node list" where
  "entry_nodes x n =
     unit_nodes x n (Conv2D 32 (3, 3) (2, 2) ''same'' False) False True @
     unit_nodes (n + 2) (n + 3) (Conv2D 64 (3, 3) (1, 1) ''same'' False) False True @
     entry_block_nodes 128 (n + 5) (n + 6) @
     entry_block_nodes 256 (n + 15) (n + 16) @
     entry_block_nodes 728 (n + 25) (n + 26)"

definition middle_block_nodes :: "tensor \<Rightarrow> nat \<Rightarrow> node list" where
  "middle_block_nodes x n =
     unit_nodes x n (SeparableConv2D 728 (3, 3) (1, 1) ''same'' False) True False @
     unit_nodes (n + 2) (n + 3) (SeparableConv2D 728 (3, 3) (1, 1) ''same'' False) True False @
     unit_nodes (n + 5) (n + 6) (SeparableConv2D 728 (3, 3) (1, 1) ''same'' False) True False @
     [\<lparr>layer = Add, inbound = [x, n + 8]\<rparr>]"

definition middle_nodes :: "tensor \<Rightarrow> nat \<Rightarrow> node list" where
  "middle_nodes x n =
     middle_block_nodes x n @
     middle_block_nodes (n + 9) (n + 10) @
     middle_block_nodes (n + 19) (n + 20) @
     middle_block_nodes (n + 29) (n + 30) @
     middle_block_nodes (n + 39) (n + 40) @
     middle_block_nodes (n + 49) (n + 50) @
     middle_block_nodes (n + 59) (n + 60) @
     middle_block_nodes (n + 69) (n + 70)"

definition exit_nodes :: "tensor \<Rightarrow> nat \<Rightarrow> node list" where
  "exit_nodes x n =
     unit_nodes x n (Conv2D 1024 (1, 1) (2, 2) ''same'' False) False False @
     unit_nodes x (n + 2) (SeparableConv2D 728 (3, 3) (1, 1) ''same'' False) True False @
     unit_nodes (n + 4) (n + 5) (SeparableConv2D 1024 (3, 3) (1, 1) ''same'' False) True False @
     [\<lparr>layer = MaxPool2D (3, 3) (2, 2) ''same'', inbound = [n + 7]\<rparr>,
      \<lparr>layer = Add, inbound = [n + 1, n + 8]\<rparr>] @
     unit_nodes (n + 9) (n + 10) (SeparableConv2D 1536 (3, 3) (1, 1) ''same'' False) False True @
     unit_nodes (n + 12) (n + 13) (SeparableConv2D 2048 (3, 3) (1, 1) ''same'' False) False True @
     [\<lparr>layer = GlobalAveragePooling2D, inbound = [n + 15]\<rparr>,
      \<lparr>layer = Dense 2048, inbound = [n + 16]\<rparr>,
      \<lparr>layer = Activation ''relu'', inbound = [n + 17]\<rparr>,
      \<lparr>layer = Dense 1000, inbound = [n + 18]\<rparr>,
      \<lparr>layer = Activation ''softmax'', inbound = [n + 19]\<rparr>]"

definition model_nodes :: "nat \<Rightarrow> node list" where
  "model_nodes n =
     \<lparr>layer = InputLayer [299, 299, 3], inbound = []\<rparr> #
     entry_nodes n (n + 1) @ middle_nodes (n + 36) (n + 37) @ exit_nodes (n + 116) (n + 117)"

section \<open>Running the construction steps\<close>

lemma default_arg_simps [simp]:
  "default_arg d None = d"
  "default_arg d (Some v) = v"
  by (simp_all add: default_arg_def)

lemma py_range_2: "py_range 2 = [0, 1]"
  by (simp add: py_range_def upt_rec)

lemma py_range_3: "py_range 3 = [0, 1, 2]"
  by (simp add: py_range_def upt_rec)

lemma py_range_8: "py_range 8 = [0, 1, 2, 3, 4, 5, 6, 7]"
  by (simp add: py_range_def upt_rec)

lemma build_bind_return: "build_bind m build_return = m"
  by (auto simp add: build_bind_def build_return_def fun_eq_iff split: prod.splits sum.splits)

lemma build_bind_assoc:
  "build_bind (build_bind m f) h = build_bind m (\<lambda>x. build_bind (f x) h)"
  by (auto simp add: build_bind_def fun_eq_iff split: prod.splits sum.splits)

lemma for_each_unroll:
  "for_each [] body = build_return"
  "for_each (v # vs) body = (\<lambda>acc. build_bind (body v acc) (for_each vs body))"
  by (simp_all add: fun_eq_iff)

lemma created_run: "m g = (r, g @ ns) \<Longrightarrow> created m g = ns"
  by (simp add: created_def)

subsection \<open>The units\<close>

lemma length_unit_nodes:
  "length (unit_nodes x n c pre post) = (if pre then 1 else 0) + 2 + (if post then 1 else 0)"
  by (simp add: unit_nodes_def)

lemma convolutional_unit_run:
  assumes "cl = ''Conv2D'' \<or> cl = ''SeparableConv2D''"
  shows "convolutional_unit x nf ks st pre post (Some cl) g =
    (Inr (unit_out (length g) (default_arg False pre) (default_arg True post)),
     g @ unit_nodes x (length g) (conv_layer_of cl nf ks (default_arg (1, 1) st))
           (default_arg False pre) (default_arg True post))"
  using assms
  by (auto simp add: convolutional_unit_def Let_def build_bind_def build_return_def
      build_raise_def call_layer_def unit_nodes_def unit_out_def conv_layer_of_def)

lemma convolutional_unit_defaults:
  "convolutional_unit x nf ks st pre post None =
     convolutional_unit x nf ks st pre post (Some ''Conv2D'')"
  "convolutional_unit x nf ks None pre post cl =
     convolutional_unit x nf ks (Some (1, 1)) pre post cl"
  "convolutional_unit x nf ks st None post cl =
     convolutional_unit x nf ks st (Some False) post cl"
  "convolutional_unit x nf ks st pre None cl =
     convolutional_unit x nf ks st pre (Some True) cl"
  by (simp_all add: convolutional_unit_def)

lemma convolutional_unit_raise:
  assumes "cl \<noteq> ''Conv2D''" and "cl \<noteq> ''SeparableConv2D''"
  shows "convolutional_unit x nf ks st pre post (Some cl) g =
    (Inl (ValueError (''conv_layer must be either Conv2D or SeparableConv2D. Found '' @ cl)), g)"
  using assms by (simp add: convolutional_unit_def build_raise_def)

lemma separable_convolutional_unit_defaults:
  "separable_convolutional_unit x nf None post =
     separable_convolutional_unit x nf (Some True) post"
  "separable_convolutional_unit x nf pre None =
     separable_convolutional_unit x nf pre (Some False)"
  by (simp_all add: separable_convolutional_unit_def)

lemma separable_convolutional_unit_run:
  "separable_convolutional_unit x nf pre post g =
    (Inr (unit_out (length g) (default_arg True pre) (default_arg False post)),
     g @ unit_nodes x (length g) (SeparableConv2D nf (3, 3) (1, 1) ''same'' False)
           (default_arg True pre) (default_arg False post))"
  by (simp add: separable_convolutional_unit_def Let_def convolutional_unit_run conv_layer_of_def)

subsection \<open>The iterations of the flows, unrolled\<close>

lemma entry_flow_unrolled: "entry_flow x = EntryFlowBuilder x"
  by (simp add: entry_flow_def EntryFlowBuilder_def EntryResidualBlock_def py_range_2
      convolutional_unit_defaults separable_convolutional_unit_defaults
      build_bind_assoc build_bind_return for_each_unroll)

lemma middle_flow_unrolled: "middle_flow x = MiddleFlowBuilder x"
  by (simp add: middle_flow_def MiddleFlowBuilder_def MiddleBlock_def py_range_3 py_range_8
      separable_convolutional_unit_defaults
      build_bind_assoc build_bind_return for_each_unroll)

lemma exit_flow_unrolled: "exit_flow x = ExitFlowBuilder x"
  by (simp add: exit_flow_def ExitFlowBuilder_def
      convolutional_unit_defaults separable_convolutional_unit_defaults
      build_bind_assoc build_bind_return for_each_unroll)

subsection \<open>The nodes of the flows\<close>

lemma EntryResidualBlock_run:
  "EntryResidualBlock f x g = (Inr (length g + 9), g @ entry_block_nodes f x (length g))"
  by (simp add: EntryResidualBlock_def build_bind_def convolutional_unit_run
      separable_convolutional_unit_run call_layer_def unit_out_def entry_block_nodes_def
      length_unit_nodes conv_layer_of_def numeral_eq_Suc)

lemma length_entry_block_nodes: "length (entry_block_nodes f x n) = 10"
  by (simp add: entry_block_nodes_def length_unit_nodes)

lemma EntryFlowBuilder_run:
  "EntryFlowBuilder x g = (Inr (length g + 35), g @ entry_nodes x (length g))"
  by (simp add: EntryFlowBuilder_def build_bind_def convolutional_unit_run EntryResidualBlock_run
      unit_out_def entry_nodes_def length_unit_nodes length_entry_block_nodes conv_layer_of_def
      numeral_eq_Suc)

lemma length_entry_nodes: "length (entry_nodes x n) = 36"
  by (simp add: entry_nodes_def length_unit_nodes length_entry_block_nodes)

lemma MiddleBlock_run:
  "MiddleBlock x g = (Inr (length g + 9), g @ middle_block_nodes x (length g))"
  by (simp add: MiddleBlock_def build_bind_def separable_convolutional_unit_run
      call_layer_def unit_out_def middle_block_nodes_def length_unit_nodes numeral_eq_Suc)

lemma length_middle_block_nodes: "length (middle_block_nodes x n) = 10"
  by (simp add: middle_block_nodes_def length_unit_nodes)

lemma MiddleFlowBuilder_run:
  "MiddleFlowBuilder x g = (Inr (length g + 79), g @ middle_nodes x (length g))"
  by (simp add: MiddleFlowBuilder_def build_bind_def MiddleBlock_run middle_nodes_def
      length_middle_block_nodes numeral_eq_Suc)

lemma length_middle_nodes: "length (middle_nodes x n) = 80"
  by (simp add: middle_nodes_def length_middle_block_nodes)

lemma ExitFlowBuilder_run:
  "ExitFlowBuilder x g = (Inr (length g + 20), g @ exit_nodes x (length g))"
  by (simp add: ExitFlowBuilder_def build_bind_def convolutional_unit_run
      separable_convolutional_unit_run call_layer_def unit_out_def exit_nodes_def
      length_unit_nodes conv_layer_of_def numeral_eq_Suc)

lemma length_exit_nodes: "length (exit_nodes x n) = 21"
  by (simp add: exit_nodes_def length_unit_nodes)

lemma model_run:
  "model g = (Inr \<lparr>inputs = length g, outputs = length g + 137, name = ''Xception''\<rparr>,
              g @ model_nodes (length g))"
  by (simp add: model_def Input_def Model_def build_bind_def build_return_def call_layer_def
      entry_flow_unrolled middle_flow_unrolled exit_flow_unrolled
      EntryFlowBuilder_run MiddleFlowBuilder_run ExitFlowBuilder_run
      model_nodes_def length_entry_nodes length_middle_nodes numeral_eq_Suc)

lemma entry_flow_run:
  "entry_flow x g = (Inr (length g + 35), g @ entry_nodes x (length g))"
  by (simp add: entry_flow_unrolled EntryFlowBuilder_run)

lemma middle_flow_run:
  "middle_flow x g = (Inr (length g + 79), g @ middle_nodes x (length g))"
  by (simp add: middle_flow_unrolled MiddleFlowBuilder_run)

lemma exit_flow_run:
  "exit_flow x g = (Inr (length g + 20), g @ exit_nodes x (length g))"
  by (simp add: exit_flow_unrolled ExitFlowBuilder_run)

lemma created_flows:
  "created (entry_flow x) g = entry_nodes x (length g)"
  "created (middle_flow x) g = middle_nodes x (length g)"
  "created (exit_flow x) g = exit_nodes x (length g)"
  "created model g = model_nodes (length g)"
  by (simp_all add: created_def entry_flow_run middle_flow_run exit_flow_run model_run)

subsection \<open>Counting layers\<close>

lemma count_layers_Cons:
  "count_layers P (a # xs) = (if P (layer a) then 1 else 0) + count_layers P xs"
  by (simp add: count_layers_def)

lemma count_layers_append:
  "count_layers P (xs @ ys) = count_layers P xs + count_layers P ys"
  by (simp add: count_layers_def)

lemma count_entry_nodes:
  "count_layers is_Add (entry_nodes x n) = 3"
  "count_layers is_Conv2D (entry_nodes x n) = 5"
  "count_layers is_SeparableConv2D (entry_nodes x n) = 6"
  by (simp_all add: entry_nodes_def entry_block_nodes_def unit_nodes_def count_layers_def)

lemma count_middle_nodes:
  "count_layers is_Add (middle_nodes x n) = 8"
  "count_layers is_Conv2D (middle_nodes x n) = 0"
  "count_layers is_SeparableConv2D (middle_nodes x n) = 24"
  by (simp_all add: middle_nodes_def middle_block_nodes_def unit_nodes_def count_layers_def)

lemma count_exit_nodes:
  "count_layers is_Add (exit_nodes x n) = 1"
  "count_layers is_Conv2D (exit_nodes x n) = 1"
  "count_layers is_SeparableConv2D (exit_nodes x n) = 4"
  by (simp_all add: exit_nodes_def unit_nodes_def count_layers_def)

lemma count_model_nodes:
  "count_layers is_Add (model_nodes n) = 12"
  "count_layers is_Conv2D (model_nodes n) = 6"
  "count_layers is_SeparableConv2D (model_nodes n) = 34"
  by (simp_all add: model_nodes_def count_layers_Cons count_layers_append
      count_entry_nodes count_middle_nodes count_exit_nodes)

subsection \<open>Renaming of handles\<close>

lemma model_nodes_shift: "model_nodes (n + k) = map (shift_node k) (model_nodes n)"
  by (simp add: model_nodes_def entry_nodes_def entry_block_nodes_def middle_nodes_def
      middle_block_nodes_def exit_nodes_def unit_nodes_def shift_node_def numeral_eq_Suc)

lemma model_nodes_layers: "map layer (model_nodes n) = map layer (model_nodes k)"
  by (simp add: model_nodes_def entry_nodes_def entry_block_nodes_def middle_nodes_def
      middle_block_nodes_def exit_nodes_def unit_nodes_def)

lemma length_model_nodes: "length (model_nodes n) = 138"
  by (simp add: model_nodes_def length_entry_nodes length_middle_nodes length_exit_nodes)

subsection \<open>Computing shapes\<close>

lemma length_shapes_from: "length (shapes_from env ns) = length env + length ns"
  by (induction ns arbitrary: env) simp_all

lemma shapes_from_append: "shapes_from env (xs @ ys) = shapes_from (shapes_from env xs) ys"
  by (induction xs arbitrary: env) simp_all

lemma shape_of_append:
  "shape_of (g @ ns) t = in_shape (shapes_from (shapes_from [] g) ns) t"
  by (simp add: shape_of_def shapes_from_append)

lemma same_pad_dim_1: "same_pad_dim d 1 = d"
  by (cases d) simp_all

lemma in_shape_append:
  "in_shape (env @ ys) t = (if t < length env then env ! t else in_shape ys (t - length env))"
  by (auto simp add: in_shape_def nth_append)

lemma in_shape_Cons:
  "in_shape (y # ys) 0 = y"
  "in_shape (y # ys) (Suc k) = in_shape ys k"
  "in_shape [] k = None"
  by (simp_all add: in_shape_def)

lemma in_shape_less: "in_shape env x = Some s \<Longrightarrow> x < length env \<and> env ! x = Some s"
  by (simp add: in_shape_def split: if_splits)

lemma middle_shapes:
  assumes "in_shape env x = Some [b, h, w, Some 728]"
  shows "shapes_from env (middle_nodes x (length env)) =
           env @ replicate 80 (Some [b, h, w, Some 728])"
  using assms in_shape_less [OF assms]
  by (simp add: middle_nodes_def middle_block_nodes_def unit_nodes_def layer_shape_def in_shape_append
      in_shape_Cons same_pad_dim_1 numeral_eq_Suc)

lemma exit_shapes:
  assumes "in_shape env x = Some [b, h, w, Some 728]"
  shows "in_shape (shapes_from env (exit_nodes x (length env))) (length env + 20) = Some [b, Some 1000]"
  using assms in_shape_less [OF assms]
  by (simp add: exit_nodes_def unit_nodes_def layer_shape_def in_shape_append
      in_shape_Cons same_pad_dim_1 numeral_eq_Suc)

lemma model_shapes:
  "in_shape (shapes_from env (model_nodes (length env))) (length env) = Some [None, Some 299, Some 299, Some 3]"
  "in_shape (shapes_from env (model_nodes (length env))) (length env + 137) = Some [None, Some 1000]"
  by (simp_all add: model_nodes_def entry_nodes_def entry_block_nodes_def middle_nodes_def
      middle_block_nodes_def exit_nodes_def unit_nodes_def layer_shape_def in_shape_append
      in_shape_Cons same_pad_dim_1 numeral_eq_Suc)

subsection \<open>The unit over the checked primitive\<close>

lemma convolutional_unit_over_call_layer:
  "convolutional_unit_over call_layer = convolutional_unit"
  by (simp add: fun_eq_iff convolutional_unit_over_def convolutional_unit_def)

lemma checked_call_layer_simps:
  "checked_call_layer (Activation a) xs = call_layer (Activation a) xs"
  "checked_call_layer BatchNormalization xs = call_layer BatchNormalization xs"
  "checked_call_layer (Conv2D f ks st p b) xs =
     (case conv_arguments_error f ks st of Some e \<Rightarrow> build_raise e
      | None \<Rightarrow> call_layer (Conv2D f ks st p b) xs)"
  "checked_call_layer (SeparableConv2D f ks st p b) xs =
     (case conv_arguments_error f ks st of Some e \<Rightarrow> build_raise e
      | None \<Rightarrow> call_layer (SeparableConv2D f ks st p b) xs)"
  by (simp_all add: checked_call_layer_def)

lemma checked_unit_agrees:
  assumes "conv_arguments_error filters kernel_size (default_arg (1, 1) strides) = None"
  shows "convolutional_unit_over checked_call_layer x filters kernel_size strides pre post cl =
         convolutional_unit x filters kernel_size strides pre post cl"
  using assms
  by (simp add: convolutional_unit_over_def convolutional_unit_def checked_call_layer_simps Let_def
      cong: if_cong)

lemma conv_arguments_error_bad:
  assumes "filters < 1 \<or> fst kernel_size < 1 \<or> snd kernel_size < 1 \<or> fst strides < 1 \<or> snd strides < 1"
  shows "\<exists>msg. conv_arguments_error filters kernel_size strides = Some (ValueError msg)"
  using assms by (auto simp add: conv_arguments_error_def positive_pair_def)

lemma model_nodes_arguments_accepted:
  "list_all (\<lambda>n. layer_arguments_error (layer n) = None) (model_nodes k)"
  by (simp add: model_nodes_def entry_nodes_def entry_block_nodes_def middle_nodes_def
      middle_block_nodes_def exit_nodes_def unit_nodes_def conv_arguments_error_def
      positive_pair_def)

section \<open>The convolutional units\<close>

text \<open>
  Claim C1. For every input tensor and every call whose variant is supported,
  \<open>convolutional_unit\<close> creates exactly this pipeline, in this order: a relu activation
  of the input if and only if \<open>pre_activation\<close> holds; the chosen convolution (standard
  or separable) with the given filters, kernel size and strides, "same" padding and no
  bias, applied to the activated input (or to the input itself); one batch
  normalization of the convolution's output; and a relu activation of the normalized
  tensor if and only if \<open>post_activation\<close> holds. The unit returns the last tensor of
  the pipeline, and it creates exactly one batch normalization whatever the flags are.
  Omitted arguments take their defaults.
\<close>

theorem convolutional_unit_pipeline:
  assumes "default_arg ''Conv2D'' conv_layer \<in> {''Conv2D'', ''SeparableConv2D''}"
  shows "convolutional_unit x filters kernel_size strides pre_activation post_activation conv_layer g =
      (Inr (length g + (if default_arg False pre_activation then 1 else 0) + 1
                     + (if default_arg True post_activation then 1 else 0)),
       g @ (if default_arg False pre_activation
            then [\<lparr>layer = Activation ''relu'', inbound = [x]\<rparr>] else [])
         @ [\<lparr>layer = (if default_arg ''Conv2D'' conv_layer = ''Conv2D''
                       then Conv2D filters kernel_size (default_arg (1, 1) strides) ''same'' False
                       else SeparableConv2D filters kernel_size (default_arg (1, 1) strides) ''same'' False),
              inbound = [if default_arg False pre_activation then length g else x]\<rparr>]
         @ [\<lparr>layer = BatchNormalization,
              inbound = [length g + (if default_arg False pre_activation then 1 else 0)]\<rparr>]
         @ (if default_arg True post_activation
            then [\<lparr>layer = Activation ''relu'',
                    inbound = [length g + (if default_arg False pre_activation then 2 else 1)]\<rparr>]
            else []))
    \<and> count_layers is_BatchNormalization
        (created (convolutional_unit x filters kernel_size strides pre_activation post_activation conv_layer) g) = 1"
proof -
  obtain cl where cl: "convolutional_unit x filters kernel_size strides pre_activation post_activation conv_layer
      = convolutional_unit x filters kernel_size strides pre_activation post_activation (Some cl)"
    and v: "cl = ''Conv2D'' \<or> cl = ''SeparableConv2D''" and d: "default_arg ''Conv2D'' conv_layer = cl"
    using assms by (cases conv_layer) (auto simp add: convolutional_unit_defaults)
  show ?thesis
    unfolding cl created_def d
    using v by (auto simp add: convolutional_unit_run unit_nodes_def unit_out_def conv_layer_of_def count_layers_def)
qed

text \<open>The pipeline of a separable unit with both activations, on a graph of one input.\<close>

theorem convolutional_unit_pipeline_witness:
  "default_arg ''Conv2D'' (Some ''SeparableConv2D'') \<in> {''Conv2D'', ''SeparableConv2D''} \<and>
   convolutional_unit 0 728 (3, 3) None (Some True) (Some True) (Some ''SeparableConv2D'')
     [\<lparr>layer = InputLayer [19, 19, 728], inbound = []\<rparr>] =
   (Inr 4,
    [\<lparr>layer = InputLayer [19, 19, 728], inbound = []\<rparr>,
     \<lparr>layer = Activation ''relu'', inbound = [0]\<rparr>,
     \<lparr>layer = SeparableConv2D 728 (3, 3) (1, 1) ''same'' False, inbound = [1]\<rparr>,
     \<lparr>layer = BatchNormalization, inbound = [2]\<rparr>,
     \<lparr>layer = Activation ''relu'', inbound = [3]\<rparr>])"
  using convolutional_unit_pipeline [of "Some ''SeparableConv2D''" 0 728 "(3, 3)" None "Some True" "Some True"
      "[\<lparr>layer = InputLayer [19, 19, 728], inbound = []\<rparr>]"]
  by simp

text \<open>
  Claim C2. For every input tensor, filter count and pair of activation flags,
  \<open>separable_convolutional_unit\<close> builds exactly what \<open>convolutional_unit\<close> builds with
  kernel size \<open>(3, 3)\<close>, strides \<open>(1, 1)\<close>, the same flags and the separable variant.
  When the flags are omitted they default to pre-activation on and post-activation off,
  the inverse of the defaults of \<open>convolutional_unit\<close>, which are pre-activation off and
  post-activation on.
\<close>

theorem separable_convolutional_unit_refines:
  "separable_convolutional_unit x filters pre_activation post_activation g =
     convolutional_unit x filters (3, 3) (Some (1, 1))
       (Some (default_arg True pre_activation)) (Some (default_arg False post_activation))
       (Some ''SeparableConv2D'') g
   \<and> separable_convolutional_unit x filters (Some pre) (Some post) g =
     convolutional_unit x filters (3, 3) (Some (1, 1)) (Some pre) (Some post)
       (Some ''SeparableConv2D'') g
   \<and> separable_convolutional_unit x filters None None g =
     convolutional_unit x filters (3, 3) (Some (1, 1)) (Some True) (Some False)
       (Some ''SeparableConv2D'') g
   \<and> convolutional_unit x filters kernel_size strides None None conv_layer g =
     convolutional_unit x filters kernel_size strides (Some False) (Some True) conv_layer g"
  by (simp add: separable_convolutional_unit_def convolutional_unit_defaults)

text \<open>
  Claim C7. A call of \<open>convolutional_unit\<close> whose variant is neither \<open>Conv2D\<close> nor
  \<open>SeparableConv2D\<close> raises a \<open>ValueError\<close> whose message names the parameter
  \<open>conv_layer\<close> and the offending value, and the graph is left as it was: no node of
  the unit has been created. For a variant in the supported set, given or defaulted,
  the check does not fail and the call returns a tensor.
\<close>

theorem convolutional_unit_variant_check:
  "(conv_layer \<notin> {''Conv2D'', ''SeparableConv2D''} \<longrightarrow>
      convolutional_unit x filters kernel_size strides pre_activation post_activation (Some conv_layer) g =
        (Inl (ValueError
           (''conv_layer must be either Conv2D or SeparableConv2D. Found '' @ conv_layer)), g))
   \<and> (conv_layer \<in> {''Conv2D'', ''SeparableConv2D''} \<longrightarrow>
      (\<exists>t ns. convolutional_unit x filters kernel_size strides pre_activation post_activation
                 (Some conv_layer) g = (Inr t, g @ ns)))
   \<and> (\<exists>t ns. convolutional_unit x filters kernel_size strides pre_activation post_activation None g
                 = (Inr t, g @ ns))"
  by (auto simp add: convolutional_unit_raise convolutional_unit_run convolutional_unit_defaults)

text \<open>The variant \<open>Dense\<close> is rejected and the variant \<open>SeparableConv2D\<close> is accepted.\<close>

theorem convolutional_unit_variant_check_witness:
  "''Dense'' \<notin> {''Conv2D'', ''SeparableConv2D''} \<and>
   convolutional_unit 0 32 (3, 3) None (Some True) None (Some ''Dense'')
     [\<lparr>layer = InputLayer [299, 299, 3], inbound = []\<rparr>] =
     (Inl (ValueError ''conv_layer must be either Conv2D or SeparableConv2D. Found Dense''),
      [\<lparr>layer = InputLayer [299, 299, 3], inbound = []\<rparr>]) \<and>
   ''SeparableConv2D'' \<in> {''Conv2D'', ''SeparableConv2D''} \<and>
   (\<exists>t ns. convolutional_unit 0 32 (3, 3) None (Some True) None (Some ''SeparableConv2D'')
     [\<lparr>layer = InputLayer [299, 299, 3], inbound = []\<rparr>] =
     (Inr t, [\<lparr>layer = InputLayer [299, 299, 3], inbound = []\<rparr>] @ ns))"
  using convolutional_unit_variant_check [of "''Dense''" 0 32 "(3, 3)" None "Some True" None
      "[\<lparr>layer = InputLayer [299, 299, 3], inbound = []\<rparr>]"]
    convolutional_unit_variant_check [of "''SeparableConv2D''" 0 32 "(3, 3)" None "Some True" None
      "[\<lparr>layer = InputLayer [299, 299, 3], inbound = []\<rparr>]"]
  by simp

text \<open>
  Claim C8. A call of the unit with a filter count below one, or with a kernel size or
  strides of which a component is not positive, fails with a \<open>ValueError\<close>, and it
  fails synchronously: the error is the result of the call itself, and nothing is
  created after the point of the failure. When the variant is unsupported the error is
  the unit's own and the graph is unchanged. Otherwise the error is raised by the
  convolution layer that receives the bad argument: the graph holds at most the relu
  node of the pre-activation, which the source creates before the convolution, and
  neither the convolution nor the batch normalization exists. The unit is taken over
  the primitive that checks the arguments of a convolution.
\<close>

theorem convolutional_unit_rejects_nonpositive_arguments:
  assumes "filters < 1 \<or> fst kernel_size < 1 \<or> snd kernel_size < 1
           \<or> fst (default_arg (1, 1) strides) < 1 \<or> snd (default_arg (1, 1) strides) < 1"
  shows "\<exists>msg. convolutional_unit_over checked_call_layer x filters kernel_size strides
                 pre_activation post_activation conv_layer g =
           (Inl (ValueError msg),
            g @ (if default_arg ''Conv2D'' conv_layer \<in> {''Conv2D'', ''SeparableConv2D''}
                    \<and> default_arg False pre_activation
                 then [\<lparr>layer = Activation ''relu'', inbound = [x]\<rparr>] else []))"
proof -
  obtain msg where
    "conv_arguments_error filters kernel_size (default_arg (1, 1) strides) = Some (ValueError msg)"
    using conv_arguments_error_bad [OF assms] by blast
  then show ?thesis
    by (auto simp add: convolutional_unit_over_def Let_def checked_call_layer_simps
        build_bind_def build_raise_def build_return_def call_layer_def)
qed

text \<open>
  The filter count \<open>0\<close>, the kernel size \<open>(0, -3)\<close>, and the strides \<open>(0, -1)\<close> on a
  pre-activated separable unit, whose relu node exists when the error is raised.
\<close>

theorem convolutional_unit_rejects_nonpositive_arguments_witness:
  "((0::int) < 1 \<or> fst ((3, 3)::int \<times> int) < 1 \<or> snd ((3, 3)::int \<times> int) < 1
      \<or> fst (default_arg (1, 1) (Some ((1, 1)::int \<times> int))) < 1
      \<or> snd (default_arg (1, 1) (Some ((1, 1)::int \<times> int))) < 1) \<and>
   (\<exists>msg. convolutional_unit_over checked_call_layer 0 0 (3, 3) (Some (1, 1)) None None None
             [\<lparr>layer = InputLayer [299, 299, 3], inbound = []\<rparr>] =
           (Inl (ValueError msg), [\<lparr>layer = InputLayer [299, 299, 3], inbound = []\<rparr>])) \<and>
   (\<exists>msg. convolutional_unit_over checked_call_layer 0 32 (0, - 3) (Some (1, 1)) None None None
             [\<lparr>layer = InputLayer [299, 299, 3], inbound = []\<rparr>] =
           (Inl (ValueError msg), [\<lparr>layer = InputLayer [299, 299, 3], inbound = []\<rparr>])) \<and>
   (\<exists>msg. convolutional_unit_over checked_call_layer 0 32 (3, 3) (Some (0, - 1)) (Some True) None
             (Some ''SeparableConv2D'')
             [\<lparr>layer = InputLayer [299, 299, 3], inbound = []\<rparr>] =
           (Inl (ValueError msg),
            [\<lparr>layer = InputLayer [299, 299, 3], inbound = []\<rparr>,
             \<lparr>layer = Activation ''relu'', inbound = [0]\<rparr>]))"
  using convolutional_unit_rejects_nonpositive_arguments
      [of 0 "(3, 3)" "Some (1, 1)" 0 None None None
        "[\<lparr>layer = InputLayer [299, 299, 3], inbound = []\<rparr>]"]
    convolutional_unit_rejects_nonpositive_arguments
      [of 32 "(0, - 3)" "Some (1, 1)" 0 None None None
        "[\<lparr>layer = InputLayer [299, 299, 3], inbound = []\<rparr>]"]
    convolutional_unit_rejects_nonpositive_arguments
      [of 32 "(3, 3)" "Some (0, - 1)" 0 "Some True" None "Some ''SeparableConv2D''"
        "[\<lparr>layer = InputLayer [299, 299, 3], inbound = []\<rparr>]"]
  by simp

section \<open>The three flows\<close>

text \<open>
  Claim C3. For every input tensor, \<open>entry_flow\<close> applies a standard unit with 32
  filters, kernel 3x3 and strides 2x2, then a standard unit with 64 filters, kernel 3x3
  and strides 1x1, both activated after the normalization only, and then exactly three
  residual blocks for the filter counts 128, 256 and 728 in this order. Each block
  computes a projection of the incoming tensor by a unit with kernel 1x1 and strides 2x2
  and no activation, applies the separable unit with the block's filter count twice in
  sequence to the incoming tensor, max-pools the result with pool size 3x3, strides 2x2
  and "same" padding, and adds the projection and the pooled tensor. The flow always
  returns, and it creates exactly three \<open>Add\<close> nodes, each merging the normalized output
  of its block's projection with its block's pooling.
\<close>

theorem entry_flow_structure:
  "entry_flow x g = EntryFlowBuilder x g
   \<and> (\<exists>ns. entry_flow x g = (Inr (length g + 35), g @ ns))
   \<and> map layer (created (entry_flow x) g) =
       [Conv2D 32 (3, 3) (2, 2) ''same'' False, BatchNormalization, Activation ''relu'',
        Conv2D 64 (3, 3) (1, 1) ''same'' False, BatchNormalization, Activation ''relu'',
        Conv2D 128 (1, 1) (2, 2) ''same'' False, BatchNormalization,
        Activation ''relu'', SeparableConv2D 128 (3, 3) (1, 1) ''same'' False, BatchNormalization,
        Activation ''relu'', SeparableConv2D 128 (3, 3) (1, 1) ''same'' False, BatchNormalization,
        MaxPool2D (3, 3) (2, 2) ''same'', Add,
        Conv2D 256 (1, 1) (2, 2) ''same'' False, BatchNormalization,
        Activation ''relu'', SeparableConv2D 256 (3, 3) (1, 1) ''same'' False, BatchNormalization,
        Activation ''relu'', SeparableConv2D 256 (3, 3) (1, 1) ''same'' False, BatchNormalization,
        MaxPool2D (3, 3) (2, 2) ''same'', Add,
        Conv2D 728 (1, 1) (2, 2) ''same'' False, BatchNormalization,
        Activation ''relu'', SeparableConv2D 728 (3, 3) (1, 1) ''same'' False, BatchNormalization,
        Activation ''relu'', SeparableConv2D 728 (3, 3) (1, 1) ''same'' False, BatchNormalization,
        MaxPool2D (3, 3) (2, 2) ''same'', Add]
   \<and> count_layers is_Add (created (entry_flow x) g) = 3
   \<and> filter (\<lambda>n. is_Add (layer n)) (created (entry_flow x) g) =
       [\<lparr>layer = Add, inbound = [length g + 7, length g + 14]\<rparr>,
        \<lparr>layer = Add, inbound = [length g + 17, length g + 24]\<rparr>,
        \<lparr>layer = Add, inbound = [length g + 27, length g + 34]\<rparr>]
   \<and> filter is_Conv2D (map layer (created (entry_flow x) g)) =
       [Conv2D 32 (3, 3) (2, 2) ''same'' False,
        Conv2D 64 (3, 3) (1, 1) ''same'' False,
        Conv2D 128 (1, 1) (2, 2) ''same'' False,
        Conv2D 256 (1, 1) (2, 2) ''same'' False,
        Conv2D 728 (1, 1) (2, 2) ''same'' False]"
proof (intro conjI)
  show "entry_flow x g = EntryFlowBuilder x g"
    by (simp add: entry_flow_unrolled)
  show "\<exists>ns. entry_flow x g = (Inr (length g + 35), g @ ns)"
    by (simp add: entry_flow_run)
  show "map layer (created (entry_flow x) g) =
       [Conv2D 32 (3, 3) (2, 2) ''same'' False, BatchNormalization, Activation ''relu'',
        Conv2D 64 (3, 3) (1, 1) ''same'' False, BatchNormalization, Activation ''relu'',
        Conv2D 128 (1, 1) (2, 2) ''same'' False, BatchNormalization,
        Activation ''relu'', SeparableConv2D 128 (3, 3) (1, 1) ''same'' False, BatchNormalization,
        Activation ''relu'', SeparableConv2D 128 (3, 3) (1, 1) ''same'' False, BatchNormalization,
        MaxPool2D (3, 3) (2, 2) ''same'', Add,
        Conv2D 256 (1, 1) (2, 2) ''same'' False, BatchNormalization,
        Activation ''relu'', SeparableConv2D 256 (3, 3) (1, 1) ''same'' False, BatchNormalization,
        Activation ''relu'', SeparableConv2D 256 (3, 3) (1, 1) ''same'' False, BatchNormalization,
        MaxPool2D (3, 3) (2, 2) ''same'', Add,
        Conv2D 728 (1, 1) (2, 2) ''same'' False, BatchNormalization,
        Activation ''relu'', SeparableConv2D 728 (3, 3) (1, 1) ''same'' False, BatchNormalization,
        Activation ''relu'', SeparableConv2D 728 (3, 3) (1, 1) ''same'' False, BatchNormalization,
        MaxPool2D (3, 3) (2, 2) ''same'', Add]"
    by (simp add: created_flows entry_nodes_def entry_block_nodes_def unit_nodes_def)
  show "count_layers is_Add (created (entry_flow x) g) = 3"
    by (simp add: created_flows count_entry_nodes)
  show "filter (\<lambda>n. is_Add (layer n)) (created (entry_flow x) g) =
       [\<lparr>layer = Add, inbound = [length g + 7, length g + 14]\<rparr>,
        \<lparr>layer = Add, inbound = [length g + 17, length g + 24]\<rparr>,
        \<lparr>layer = Add, inbound = [length g + 27, length g + 34]\<rparr>]"
    by (simp add: created_flows entry_nodes_def entry_block_nodes_def unit_nodes_def)
  show "filter is_Conv2D (map layer (created (entry_flow x) g)) =
       [Conv2D 32 (3, 3) (2, 2) ''same'' False,
        Conv2D 64 (3, 3) (1, 1) ''same'' False,
        Conv2D 128 (1, 1) (2, 2) ''same'' False,
        Conv2D 256 (1, 1) (2, 2) ''same'' False,
        Conv2D 728 (1, 1) (2, 2) ''same'' False]"
    by (simp add: created_flows entry_nodes_def entry_block_nodes_def unit_nodes_def)
qed

text \<open>
  Claim C4. \<open>middle_flow\<close> is eight residual blocks in sequence, each of three separable
  units with 728 filters that are activated before the convolution and not after the
  normalization, followed by the addition of the block's own input and the third unit's
  output. It creates exactly 8 \<open>Add\<close> nodes and exactly 24 separable convolutions, all
  with 728 filters; the first \<open>Add\<close> takes the flow's input and every later one the
  output of the \<open>Add\<close> before it. For an input tensor of shape \<open>[*, H, W, 728]\<close> the
  output tensor has the same shape.
\<close>

theorem middle_flow_shape_preserving:
  "middle_flow x g = MiddleFlowBuilder x g
   \<and> (\<exists>ns. middle_flow x g = (Inr (length g + 79), g @ ns))
   \<and> map layer (created (middle_flow x) g) =
       concat (replicate 8
         [Activation ''relu'', SeparableConv2D 728 (3, 3) (1, 1) ''same'' False, BatchNormalization,
          Activation ''relu'', SeparableConv2D 728 (3, 3) (1, 1) ''same'' False, BatchNormalization,
          Activation ''relu'', SeparableConv2D 728 (3, 3) (1, 1) ''same'' False, BatchNormalization,
          Add])
   \<and> count_layers is_Add (created (middle_flow x) g) = 8
   \<and> filter (\<lambda>n. is_Add (layer n)) (created (middle_flow x) g) =
       [\<lparr>layer = Add, inbound = [x, length g + 8]\<rparr>,
        \<lparr>layer = Add, inbound = [length g + 9, length g + 18]\<rparr>,
        \<lparr>layer = Add, inbound = [length g + 19, length g + 28]\<rparr>,
        \<lparr>layer = Add, inbound = [length g + 29, length g + 38]\<rparr>,
        \<lparr>layer = Add, inbound = [length g + 39, length g + 48]\<rparr>,
        \<lparr>layer = Add, inbound = [length g + 49, length g + 58]\<rparr>,
        \<lparr>layer = Add, inbound = [length g + 59, length g + 68]\<rparr>,
        \<lparr>layer = Add, inbound = [length g + 69, length g + 78]\<rparr>]
   \<and> count_layers is_SeparableConv2D (created (middle_flow x) g) = 24
   \<and> filter is_SeparableConv2D (map layer (created (middle_flow x) g)) =
       replicate 24 (SeparableConv2D 728 (3, 3) (1, 1) ''same'' False)
   \<and> (shape_of g x = Some [b, h, w, Some 728] \<longrightarrow>
       shape_of (snd (middle_flow x g)) (length g + 79) = Some [b, h, w, Some 728])"
proof (intro conjI impI)
  show "middle_flow x g = MiddleFlowBuilder x g"
    by (simp add: middle_flow_unrolled)
  show "\<exists>ns. middle_flow x g = (Inr (length g + 79), g @ ns)"
    by (simp add: middle_flow_run)
  show "map layer (created (middle_flow x) g) =
       concat (replicate 8
         [Activation ''relu'', SeparableConv2D 728 (3, 3) (1, 1) ''same'' False, BatchNormalization,
          Activation ''relu'', SeparableConv2D 728 (3, 3) (1, 1) ''same'' False, BatchNormalization,
          Activation ''relu'', SeparableConv2D 728 (3, 3) (1, 1) ''same'' False, BatchNormalization,
          Add])"
    by (simp add: created_flows middle_nodes_def middle_block_nodes_def unit_nodes_def
        numeral_eq_Suc)
  show "count_layers is_Add (created (middle_flow x) g) = 8"
    by (simp add: created_flows count_middle_nodes)
  show "filter (\<lambda>n. is_Add (layer n)) (created (middle_flow x) g) =
       [\<lparr>layer = Add, inbound = [x, length g + 8]\<rparr>,
        \<lparr>layer = Add, inbound = [length g + 9, length g + 18]\<rparr>,
        \<lparr>layer = Add, inbound = [length g + 19, length g + 28]\<rparr>,
        \<lparr>layer = Add, inbound = [length g + 29, length g + 38]\<rparr>,
        \<lparr>layer = Add, inbound = [length g + 39, length g + 48]\<rparr>,
        \<lparr>layer = Add, inbound = [length g + 49, length g + 58]\<rparr>,
        \<lparr>layer = Add, inbound = [length g + 59, length g + 68]\<rparr>,
        \<lparr>layer = Add, inbound = [length g + 69, length g + 78]\<rparr>]"
    by (simp add: created_flows middle_nodes_def middle_block_nodes_def unit_nodes_def)
  show "count_layers is_SeparableConv2D (created (middle_flow x) g) = 24"
    by (simp add: created_flows count_middle_nodes)
  show "filter is_SeparableConv2D (map layer (created (middle_flow x) g)) =
       replicate 24 (SeparableConv2D 728 (3, 3) (1, 1) ''same'' False)"
    by (simp add: created_flows middle_nodes_def middle_block_nodes_def unit_nodes_def
        numeral_eq_Suc)
next
  assume "shape_of g x = Some [b, h, w, Some 728]"
  then have "in_shape (shapes_from [] g) x = Some [b, h, w, Some 728]"
    by (simp add: shape_of_def)
  from middle_shapes [OF this]
  show "shape_of (snd (middle_flow x g)) (length g + 79) = Some [b, h, w, Some 728]"
    by (simp add: middle_flow_run shape_of_append length_shapes_from in_shape_def nth_append)
qed

text \<open>The middle flow on an input of shape \<open>[*, 19, 19, 728]\<close>.\<close>

theorem middle_flow_shape_preserving_witness:
  "shape_of [\<lparr>layer = InputLayer [19, 19, 728], inbound = []\<rparr>] 0 =
     Some [None, Some 19, Some 19, Some 728] \<and>
   shape_of (snd (middle_flow 0 [\<lparr>layer = InputLayer [19, 19, 728], inbound = []\<rparr>])) 80 =
     Some [None, Some 19, Some 19, Some 728]"
proof -
  have h: "shape_of [\<lparr>layer = InputLayer [19, 19, 728], inbound = []\<rparr>] 0 =
     Some [None, Some 19, Some 19, Some 728]"
    by (simp add: shape_of_def layer_shape_def in_shape_def)
  have "shape_of (snd (middle_flow 0 [\<lparr>layer = InputLayer [19, 19, 728], inbound = []\<rparr>]))
          (length [\<lparr>layer = InputLayer [19, 19, 728], inbound = []\<rparr>] + 79) =
        Some [None, Some 19, Some 19, Some 728]"
    using h middle_flow_shape_preserving
      [of 0 "[\<lparr>layer = InputLayer [19, 19, 728], inbound = []\<rparr>]" None "Some 19" "Some 19"]
    by blast
  then show ?thesis
    using h by simp
qed

text \<open>
  Claim C5. \<open>exit_flow\<close> creates exactly this sequence: the residual branch, a unit with
  1024 filters, kernel 1x1, strides 2x2 and no activation; the main branch, separable
  units with 728 and then 1024 filters and the default flags, followed by max-pooling
  with pool size 3x3, strides 2x2 and "same" padding; one addition of the two branches;
  separable units with 1536 and then 2048 filters, both with pre-activation off and
  post-activation on; global average pooling; \<open>Dense 2048\<close> and relu; \<open>Dense 1000\<close> and
  softmax. For an input tensor of shape \<open>[*, H, W, 728]\<close> the output has the shape
  \<open>[*, 1000]\<close>. No other separable unit of the network has these flags: the entry and
  middle flows are the builders above, whose separable units all have pre-activation on
  and post-activation off.
\<close>

theorem exit_flow_structure:
  "exit_flow x g = ExitFlowBuilder x g
   \<and> (\<exists>ns. exit_flow x g = (Inr (length g + 20), g @ ns))
   \<and> map layer (created (exit_flow x) g) =
       [Conv2D 1024 (1, 1) (2, 2) ''same'' False, BatchNormalization,
        Activation ''relu'', SeparableConv2D 728 (3, 3) (1, 1) ''same'' False, BatchNormalization,
        Activation ''relu'', SeparableConv2D 1024 (3, 3) (1, 1) ''same'' False, BatchNormalization,
        MaxPool2D (3, 3) (2, 2) ''same'',
        Add,
        SeparableConv2D 1536 (3, 3) (1, 1) ''same'' False, BatchNormalization, Activation ''relu'',
        SeparableConv2D 2048 (3, 3) (1, 1) ''same'' False, BatchNormalization, Activation ''relu'',
        GlobalAveragePooling2D,
        Dense 2048, Activation ''relu'',
        Dense 1000, Activation ''softmax'']
   \<and> filter (\<lambda>n. is_Add (layer n)) (created (exit_flow x) g) =
       [\<lparr>layer = Add, inbound = [length g + 1, length g + 8]\<rparr>]
   \<and> (shape_of g x = Some [b, h, w, Some 728] \<longrightarrow>
       shape_of (snd (exit_flow x g)) (length g + 20) = Some [b, Some 1000])
   \<and> entry_flow y = EntryFlowBuilder y
   \<and> middle_flow y = MiddleFlowBuilder y"
proof (intro conjI impI)
  show "exit_flow x g = ExitFlowBuilder x g"
    by (simp add: exit_flow_unrolled)
  show "\<exists>ns. exit_flow x g = (Inr (length g + 20), g @ ns)"
    by (simp add: exit_flow_run)
  show "map layer (created (exit_flow x) g) =
       [Conv2D 1024 (1, 1) (2, 2) ''same'' False, BatchNormalization,
        Activation ''relu'', SeparableConv2D 728 (3, 3) (1, 1) ''same'' False, BatchNormalization,
        Activation ''relu'', SeparableConv2D 1024 (3, 3) (1, 1) ''same'' False, BatchNormalization,
        MaxPool2D (3, 3) (2, 2) ''same'',
        Add,
        SeparableConv2D 1536 (3, 3) (1, 1) ''same'' False, BatchNormalization, Activation ''relu'',
        SeparableConv2D 2048 (3, 3) (1, 1) ''same'' False, BatchNormalization, Activation ''relu'',
        GlobalAveragePooling2D,
        Dense 2048, Activation ''relu'',
        Dense 1000, Activation ''softmax'']"
    by (simp add: created_flows exit_nodes_def unit_nodes_def)
  show "filter (\<lambda>n. is_Add (layer n)) (created (exit_flow x) g) =
       [\<lparr>layer = Add, inbound = [length g + 1, length g + 8]\<rparr>]"
    by (simp add: created_flows exit_nodes_def unit_nodes_def)
  show "entry_flow y = EntryFlowBuilder y"
    by (rule entry_flow_unrolled)
  show "middle_flow y = MiddleFlowBuilder y"
    by (rule middle_flow_unrolled)
next
  assume "shape_of g x = Some [b, h, w, Some 728]"
  then have "in_shape (shapes_from [] g) x = Some [b, h, w, Some 728]"
    by (simp add: shape_of_def)
  from exit_shapes [OF this]
  show "shape_of (snd (exit_flow x g)) (length g + 20) = Some [b, Some 1000]"
    by (simp add: exit_flow_run shape_of_append length_shapes_from)
qed

text \<open>The exit flow on an input of shape \<open>[*, 19, 19, 728]\<close>.\<close>

theorem exit_flow_structure_witness:
  "shape_of [\<lparr>layer = InputLayer [19, 19, 728], inbound = []\<rparr>] 0 =
     Some [None, Some 19, Some 19, Some 728] \<and>
   shape_of (snd (exit_flow 0 [\<lparr>layer = InputLayer [19, 19, 728], inbound = []\<rparr>])) 21 =
     Some [None, Some 1000]"
proof -
  have h: "shape_of [\<lparr>layer = InputLayer [19, 19, 728], inbound = []\<rparr>] 0 =
     Some [None, Some 19, Some 19, Some 728]"
    by (simp add: shape_of_def layer_shape_def in_shape_def)
  have "shape_of (snd (exit_flow 0 [\<lparr>layer = InputLayer [19, 19, 728], inbound = []\<rparr>]))
          (length [\<lparr>layer = InputLayer [19, 19, 728], inbound = []\<rparr>] + 20) =
        Some [None, Some 1000]"
    using h exit_flow_structure
      [of 0 "[\<lparr>layer = InputLayer [19, 19, 728], inbound = []\<rparr>]" None "Some 19" "Some 19"]
    by blast
  then show ?thesis
    using h by simp
qed

section \<open>The assembled model\<close>

text \<open>
  Claim C6. The module declares an input placeholder of shape \<open>[299, 299, 3]\<close>, whose
  batch dimension is unbound, passes it to \<open>entry_flow\<close>, the result to \<open>middle_flow\<close> and
  that result to \<open>exit_flow\<close>, with nothing in between, and packages the input tensor
  and the output tensor of the exit flow into a model named \<open>Xception\<close>. None of the
  steps fails.
\<close>

theorem model_assembly:
  "\<exists>e m out g1 g2 g3.
      Input [299, 299, 3] g =
        (Inr (length g), g @ [\<lparr>layer = InputLayer [299, 299, 3], inbound = []\<rparr>])
    \<and> entry_flow (length g) (g @ [\<lparr>layer = InputLayer [299, 299, 3], inbound = []\<rparr>]) = (Inr e, g1)
    \<and> middle_flow e g1 = (Inr m, g2)
    \<and> exit_flow m g2 = (Inr out, g3)
    \<and> model g = (Inr \<lparr>inputs = length g, outputs = out, name = ''Xception''\<rparr>, g3)
    \<and> shape_of g3 (length g) = Some [None, Some 299, Some 299, Some 3]"
proof -
  let ?g0 = "g @ [\<lparr>layer = InputLayer [299, 299, 3], inbound = []\<rparr>]"
  obtain e g1 where e: "entry_flow (length g) ?g0 = (Inr e, g1)"
    by (simp add: entry_flow_run)
  obtain m g2 where m: "middle_flow e g1 = (Inr m, g2)"
    by (simp add: middle_flow_run)
  obtain out g3 where out: "exit_flow m g2 = (Inr out, g3)"
    by (simp add: exit_flow_run)
  have i: "Input [299, 299, 3] g = (Inr (length g), ?g0)"
    by (simp add: Input_def call_layer_def)
  have mo: "model g = (Inr \<lparr>inputs = length g, outputs = out, name = ''Xception''\<rparr>, g3)"
    using i e m out by (simp add: model_def build_bind_def Model_def build_return_def)
  have "g3 = g @ model_nodes (length g)"
    using mo by (simp add: model_run)
  then have "shape_of g3 (length g) = Some [None, Some 299, Some 299, Some 3]"
    using model_shapes(1) [of "shapes_from [] g"]
    by (simp add: shape_of_append length_shapes_from)
  with i e m out mo show ?thesis
    by blast
qed

text \<open>
  Claim C9. The layers created for the model are 138 in number, among them exactly 12
  \<open>Add\<close> nodes (3 from the entry flow, 8 from the middle flow, 1 from the exit flow),
  exactly 6 standard convolutions (5 in the entry flow, namely 2 in the stem and 3
  projections, and 1 in the exit flow) and exactly 34 separable convolutions (6 in the
  entry flow, 24 in the middle flow, 4 in the exit flow).
\<close>

theorem model_layer_counts:
  "count_layers is_Add (created model g) = 12
   \<and> count_layers is_Conv2D (created model g) = 6
   \<and> count_layers is_SeparableConv2D (created model g) = 34
   \<and> count_layers is_Add (created (entry_flow x) g) = 3
   \<and> count_layers is_Add (created (middle_flow x) g) = 8
   \<and> count_layers is_Add (created (exit_flow x) g) = 1
   \<and> count_layers is_Conv2D (created (entry_flow x) g) = 5
   \<and> count_layers is_Conv2D (created (middle_flow x) g) = 0
   \<and> count_layers is_Conv2D (created (exit_flow x) g) = 1
   \<and> count_layers is_SeparableConv2D (created (entry_flow x) g) = 6
   \<and> count_layers is_SeparableConv2D (created (middle_flow x) g) = 24
   \<and> count_layers is_SeparableConv2D (created (exit_flow x) g) = 4
   \<and> snd (model g) = g @ created model g
   \<and> length (created model g) = 138"
  by (simp add: created_flows count_model_nodes count_entry_nodes count_middle_nodes
      count_exit_nodes model_run length_model_nodes)

text \<open>
  Claim C10. The construction is deterministic in structure: whatever graph exists
  already, the model's nodes have the same sequence of layers and parameters, and the
  same wiring up to the renaming of handles. In particular a second build that follows
  a first one creates a copy of the first build's nodes, moved by as many positions as
  the first build created nodes, and the input and output tensors of the two models are
  distinct while the name is the same.
\<close>

theorem model_deterministic:
  "map layer (created model g) = map layer (created model g')
   \<and> created model g = map (shift_node (length g)) (created model [])
   \<and> (\<exists>m1 g1 m2 g2.
        model g = (Inr m1, g1) \<and> model g1 = (Inr m2, g2)
      \<and> g1 = g @ created model g \<and> g2 = g1 @ created model g1
      \<and> map layer (created model g1) = map layer (created model g)
      \<and> created model g1 = map (shift_node (length (created model g))) (created model g)
      \<and> inputs m2 \<noteq> inputs m1 \<and> outputs m2 \<noteq> outputs m1
      \<and> name m2 = name m1)"
proof (intro conjI)
  show "map layer (created model g) = map layer (created model g')"
    by (simp add: created_flows model_nodes_layers [of "length g" "length g'"])
  show "created model g = map (shift_node (length g)) (created model [])"
    using model_nodes_shift [of 0 "length g"] by (simp add: created_flows)
  show "\<exists>m1 g1 m2 g2.
        model g = (Inr m1, g1) \<and> model g1 = (Inr m2, g2)
      \<and> g1 = g @ created model g \<and> g2 = g1 @ created model g1
      \<and> map layer (created model g1) = map layer (created model g)
      \<and> created model g1 = map (shift_node (length (created model g))) (created model g)
      \<and> inputs m2 \<noteq> inputs m1 \<and> outputs m2 \<noteq> outputs m1
      \<and> name m2 = name m1"
    using model_nodes_shift [of "length g" 138]
      model_nodes_layers [of "length g + 138" "length g"]
    by (simp add: model_run created_flows length_model_nodes)
qed

end
